theory Spec2Isabelle
  imports Main "HOL-Library.Sublist"
begin

section \<open>Data model\<close>

text \<open>
  Timestamps (MySQL \<open>DATETIME\<close> values, JavaScript \<open>Date\<close> objects) are integers
  counting seconds. The integer columns are unbounded integers: the counters stay far below
  the range of a MySQL \<open>INT\<close>.
\<close>

type_synonym time = int

text \<open>A row of table \<open>admin_users\<close> (interface \<open>AdminUser\<close> of \<open>types/index.ts\<close>).\<close>

record admin_user =
  admin_id :: int
  username :: string
  email :: string
  password_hash :: string
  role :: string
  is_active :: bool
  failed_login_attempts :: int
  locked_until :: "time option"
  mfa_enabled :: bool

text \<open>A row of table \<open>admin_sessions\<close> (interface \<open>AdminSession\<close>).\<close>

record admin_session =
  session_id :: string
  session_admin_id :: int
  ip_address :: "string option"
  user_agent :: "string option"
  created_at :: time
  expires_at :: time
  session_is_active :: bool

text \<open>A row of table \<open>activity_log\<close>.\<close>

record activity_entry =
  log_type :: string
  activity_type :: string
  log_message :: string
  created_by :: string
  log_ip_address :: "string option"
  start_time :: time

text \<open>The relational store the service talks to: the three tables of the login flow.\<close>

record database =
  admin_users :: "admin_user list"
  admin_sessions :: "admin_session list"
  activity_log :: "activity_entry list"

text \<open>
  The first row of the first result set of a stored procedure
  (\<open>results[0][0]\<close>): the status columns and the columns of the account and session.
\<close>

record proc_row =
  r_status :: string
  r_error_type :: string
  r_error_code :: string
  r_error_message :: string
  r_admin_id :: int
  r_username :: string
  r_email :: string
  r_role :: string
  r_mfa_enabled :: bool
  r_session_id :: string
  r_expires_at :: time

text \<open>Interface \<open>JWTPayload\<close>.\<close>

record JWTPayload =
  jp_admin_id :: int
  jp_username :: string
  jp_email :: string
  jp_role :: string
  jp_session_id :: string

text \<open>
  A value of a parsed JSON body. \<open>express.json()\<close> hands the controller whatever the
  client sent: the interface \<open>LoginRequest\<close> declares two strings, but nothing checks that
  at run time. \<open>JObject\<close> stands for every object and array; of a number only its being zero
  or not matters here, so a number is given by an integer.
\<close>

datatype json = JNull | JBool bool | JNumber int | JString string | JObject

text \<open>Interface \<open>LoginRequest\<close>, as the service reads it.\<close>

record LoginRequest =
  req_username :: json
  req_password :: json

section \<open>JavaScript helpers\<close>

text \<open>\<open>haystack.includes(needle)\<close> and \<open>s.startsWith(p)\<close> on strings.\<close>

fun str_includes :: "string \<Rightarrow> string \<Rightarrow> bool" where
  "str_includes [] n = (n = [])"
| "str_includes (c # cs) n = (prefix n (c # cs) \<or> str_includes cs n)"

definition startsWith :: "string \<Rightarrow> string \<Rightarrow> bool" where
  "startsWith s p = prefix p s"

text \<open>
  Truthiness of an optional string: \<open>undefined\<close>, \<open>null\<close> and the empty string are falsy.
  \<open>x || null\<close> keeps a truthy \<open>x\<close>.
\<close>

definition falsy :: "string option \<Rightarrow> bool" where
  "falsy x = (case x of None \<Rightarrow> True | Some s \<Rightarrow> s = [])"

text \<open>
  Truthiness of a body field (\<open>None\<close> is a missing field, \<open>undefined\<close>): \<open>undefined\<close>,
  \<open>null\<close>, \<open>false\<close>, \<open>0\<close> and the empty string are falsy.
\<close>

definition falsy_value :: "json option \<Rightarrow> bool" where
  "falsy_value x =
     (case x of
        None \<Rightarrow> True
      | Some JNull \<Rightarrow> True
      | Some (JBool b) \<Rightarrow> \<not> b
      | Some (JNumber n) \<Rightarrow> n = 0
      | Some (JString s) \<Rightarrow> s = []
      | Some JObject \<Rightarrow> False)"

definition or_null :: "string option \<Rightarrow> string option" where
  "or_null x = (if falsy x then None else x)"

definition js_or :: "string option \<Rightarrow> string option \<Rightarrow> string option" where
  "js_or x y = (if falsy x then y else x)"

section \<open>Token issuer (\<open>utils/jwt.ts\<close>)\<close>

text \<open>
  The library \<open>jsonwebtoken\<close> is not part of the repository. Its primitives are parameters:
  signing (payload, secret, \<open>expiresIn\<close>, clock), decoding the structure of a token into its
  claims and its \<open>exp\<close> claim (\<open>None\<close> when the token is malformed), and the check of a
  token's signature under a secret. The representation of a token is a type parameter; in
  the running service it is \<open>string\<close>.
\<close>

datatype jwt_error = JsonWebTokenError | TokenExpiredError

record 'tok jwt_lib =
  jwt_sign :: "JWTPayload \<Rightarrow> string \<Rightarrow> string \<Rightarrow> time \<Rightarrow> 'tok"
  jwt_decode :: "'tok \<Rightarrow> (JWTPayload \<times> time option) option"
  jwt_signature_valid :: "'tok \<Rightarrow> string \<Rightarrow> bool"

text \<open>
  \<open>jwt.verify(token, secret)\<close> as the library documents it: it throws
  \<open>JsonWebTokenError\<close> for a token that does not decode and for a signature that does not
  verify under the secret, throws \<open>TokenExpiredError\<close> once the clock has reached the
  \<open>exp\<close> claim, and returns the claims otherwise.
\<close>

definition jwt_verify :: "'tok jwt_lib \<Rightarrow> 'tok \<Rightarrow> string \<Rightarrow> time \<Rightarrow> jwt_error + JWTPayload" where
  "jwt_verify L token secret now =
     (case jwt_decode L token of
        None \<Rightarrow> Inl JsonWebTokenError
      | Some (claims, expiry) \<Rightarrow>
          if \<not> jwt_signature_valid L token secret then Inl JsonWebTokenError
          else
            (case expiry of
               None \<Rightarrow> Inr claims
             | Some e \<Rightarrow> if now \<ge> e then Inl TokenExpiredError else Inr claims))"

text \<open>The four module constants of \<open>jwt.ts\<close>, read from the environment.\<close>

record jwt_config =
  JWT_SECRET :: string
  JWT_EXPIRES_IN :: string
  JWT_REFRESH_SECRET :: string
  JWT_REFRESH_EXPIRES_IN :: string

text \<open>\<open>process.env.X || d\<close>: an unset or empty variable gives the default.\<close>

definition env_or :: "(string \<rightharpoonup> string) \<Rightarrow> string \<Rightarrow> string \<Rightarrow> string" where
  "env_or env x d = (case env x of None \<Rightarrow> d | Some v \<Rightarrow> if v = [] then d else v)"

definition config_of_env :: "(string \<rightharpoonup> string) \<Rightarrow> jwt_config" where
  "config_of_env env =
     \<lparr> JWT_SECRET = env_or env ''JWT_SECRET'' ''your_jwt_secret_key'',
       JWT_EXPIRES_IN = env_or env ''JWT_EXPIRES_IN'' ''8h'',
       JWT_REFRESH_SECRET = env_or env ''JWT_REFRESH_SECRET'' ''your_refresh_secret'',
       JWT_REFRESH_EXPIRES_IN = env_or env ''JWT_REFRESH_EXPIRES_IN'' ''7d'' \<rparr>"

definition generateAccessToken :: "'tok jwt_lib \<Rightarrow> jwt_config \<Rightarrow> time \<Rightarrow> JWTPayload \<Rightarrow> 'tok" where
  "generateAccessToken L cfg now payload =
     jwt_sign L payload (JWT_SECRET cfg) (JWT_EXPIRES_IN cfg) now"

definition generateRefreshToken :: "'tok jwt_lib \<Rightarrow> jwt_config \<Rightarrow> time \<Rightarrow> JWTPayload \<Rightarrow> 'tok" where
  "generateRefreshToken L cfg now payload =
     jwt_sign L payload (JWT_REFRESH_SECRET cfg) (JWT_REFRESH_EXPIRES_IN cfg) now"

text \<open>Every exception of \<open>jwt.verify\<close> is caught and replaced by one fixed error.\<close>

definition verifyAccessToken :: "'tok jwt_lib \<Rightarrow> jwt_config \<Rightarrow> time \<Rightarrow> 'tok \<Rightarrow> string + JWTPayload" where
  "verifyAccessToken L cfg now token =
     (case jwt_verify L token (JWT_SECRET cfg) now of
        Inr payload \<Rightarrow> Inr payload
      | Inl e \<Rightarrow> Inl ''Invalid or expired token'')"


definition decodeToken :: "'tok jwt_lib \<Rightarrow> 'tok \<Rightarrow> JWTPayload option" where
  "decodeToken L token = map_option fst (jwt_decode L token)"

section \<open>The environment of the service\<close>

text \<open>
  What the modules import or read from outside: \<open>bcrypt.compare\<close>, the clock of the Node
  process (\<open>new Date()\<close>), the clock of the database (\<open>NOW()\<close>), the rendering of a date in
  a template literal, the two stored procedures reached through \<open>executeProcedure\<close>
  (their SQL is not among the sources), and the token library with its configuration.
  A stored procedure takes its arguments and the store, and returns the result sets
  (\<open>None\<close> for a null result) and the store it leaves.

  \<open>bcrypt.compare\<close> is handed the submitted password as it is; the promise either
  resolves to a boolean or rejects with an error (\<open>Inl\<close> its message), as the library does
  for data that is not a string. \<open>select_by_value\<close> is what the account query answers when
  the bound identifier is not a string: that is decided by the driver and the database,
  and it is either rows or an exception.
\<close>

type_synonym proc_results = "proc_row list list option"

record 'tok runtime =
  bcrypt_compare :: "json \<Rightarrow> string \<Rightarrow> string + bool"
  select_by_value :: "json \<Rightarrow> database \<Rightarrow> string + admin_user list"
  js_now :: time
  sql_now :: time
  res_now :: time
  date_string :: "time \<Rightarrow> string"
  exec_admin_auth_login ::
    "json \<Rightarrow> string \<Rightarrow> string option \<Rightarrow> string option \<Rightarrow> database \<Rightarrow> proc_results \<times> database"
  exec_admin_auth_verify_session :: "string \<Rightarrow> database \<Rightarrow> proc_results \<times> database"
  jwt :: "'tok jwt_lib"
  jwt_cfg :: jwt_config

section \<open>Login service (\<open>services/auth.service.ts\<close>)\<close>

text \<open>
  \<open>SELECT ... FROM admin_users WHERE username = ? OR email = ?\<close> with both parameters
  bound to the submitted identifier; the rows come in table order.
\<close>

definition select_admin_users :: "string \<Rightarrow> database \<Rightarrow> admin_user list" where
  "select_admin_users ident db =
     filter (\<lambda>u. username u = ident \<or> email u = ident) (admin_users db)"

text \<open>The query as \<open>login\<close> runs it, with the identifier as it came in the body.\<close>

definition find_admin_users ::
  "'tok runtime \<Rightarrow> json \<Rightarrow> database \<Rightarrow> string + admin_user list" where
  "find_admin_users rt ident db =
     (case ident of
        JString s \<Rightarrow> Inr (select_admin_users s db)
      | _ \<Rightarrow> select_by_value rt ident db)"

text \<open>
  The statement run after a wrong password:
  \<^verbatim>\<open>UPDATE admin_users
   SET failed_login_attempts = failed_login_attempts + 1,
       locked_until = CASE
         WHEN failed_login_attempts + 1 >= 5 THEN DATE_ADD(NOW(), INTERVAL 30 MINUTE)
         ELSE NULL
       END
   WHERE admin_id = ?\<close>
  The store is MySQL (\<open>DATE_ADD\<close>, the \<open>mysql2\<close> row packets of the test helpers, the
  project's README). MySQL evaluates the assignments of a single-table \<open>UPDATE\<close> from left
  to right, and a column that an earlier assignment has set is read with its new value
  (MySQL Reference Manual, \<open>UPDATE\<close> Statement: in
  \<open>UPDATE t1 SET col1 = col1 + 1, col2 = col1\<close> both columns end with the same value).
  So the \<open>CASE\<close> reads the counter that the first assignment has already incremented.
\<close>

definition set_failed_login :: "time \<Rightarrow> admin_user \<Rightarrow> admin_user" where
  "set_failed_login now u =
     (let u1 = u\<lparr>failed_login_attempts := failed_login_attempts u + 1\<rparr>
      in u1\<lparr>locked_until :=
               (if failed_login_attempts u1 + 1 \<ge> 5 then Some (now + 30 * 60) else None)\<rparr>)"

text \<open>\<open>UPDATE admin_users SET ... WHERE admin_id = ?\<close>: every row with that id is rewritten.\<close>

definition update_where_admin_id ::
  "int \<Rightarrow> (admin_user \<Rightarrow> admin_user) \<Rightarrow> database \<Rightarrow> database" where
  "update_where_admin_id aid f db =
     db\<lparr>admin_users := map (\<lambda>u. if admin_id u = aid then f u else u) (admin_users db)\<rparr>"

definition update_failed_login :: "time \<Rightarrow> int \<Rightarrow> database \<Rightarrow> database" where
  "update_failed_login now aid db = update_where_admin_id aid (set_failed_login now) db"

text \<open>
  \<open>user.locked_until && new Date(user.locked_until) > new Date()\<close>: the expiry of a lock
  that is still running, if there is one.
\<close>

definition running_lock :: "time \<Rightarrow> admin_user \<Rightarrow> time option" where
  "running_lock now u =
     (case locked_until u of
        None \<Rightarrow> None
      | Some t \<Rightarrow> if t > now then Some t else None)"

text \<open>What \<open>login\<close> returns: the procedure's row with the two tokens added.\<close>

record 'tok login_result =
  lr_row :: proc_row
  access_token :: 'tok
  refresh_token :: 'tok

text \<open>
  Reading \<open>results[0][0].status\<close> when the first result set is empty throws a
  \<open>TypeError\<close>; its message is the engine's.
\<close>

definition type_error_message :: string where
  "type_error_message = ''Cannot read properties of undefined''"

text \<open>
  \<open>login\<close>: a thrown \<open>Error(msg)\<close> is \<open>Inl msg\<close>, also when the query or
  \<open>bcrypt.compare\<close> throws it; the store is passed through.
\<close>

definition login ::
  "'tok runtime \<Rightarrow> LoginRequest \<Rightarrow> string option \<Rightarrow> string option \<Rightarrow> database
     \<Rightarrow> (string + 'tok login_result) \<times> database" where
  "login rt loginData ipAddress userAgent db =
     (case find_admin_users rt (req_username loginData) db of
        Inl queryError \<Rightarrow> (Inl queryError, db)
      | Inr [] \<Rightarrow> (Inl ''Invalid username or password'', db)
      | Inr (user # _) \<Rightarrow>
         (case running_lock (js_now rt) user of
            Some t \<Rightarrow> (Inl (''Account is locked until '' @ date_string rt t), db)
          | None \<Rightarrow>
             if \<not> is_active user then (Inl ''Account is inactive'', db)
             else
               (case bcrypt_compare rt (req_password loginData) (password_hash user) of
                  Inl compareError \<Rightarrow> (Inl compareError, db)
                | Inr False \<Rightarrow>
                    (Inl ''Invalid username or password'',
                     update_failed_login (sql_now rt) (admin_id user) db)
                | Inr True \<Rightarrow>
                   (case exec_admin_auth_login rt (req_username loginData) (password_hash user)
                           (or_null ipAddress) (or_null userAgent) db of
                      (None, db') \<Rightarrow> (Inl ''Login failed'', db')
                    | (Some [], db') \<Rightarrow> (Inl ''Login failed'', db')
                    | (Some ([] # _), db') \<Rightarrow> (Inl type_error_message, db')
                    | (Some ((loginResult # _) # _), db') \<Rightarrow>
                        if r_status loginResult = ''fail''
                        then (Inl (r_error_message loginResult), db')
                        else
                          (let payload = \<lparr> jp_admin_id = r_admin_id loginResult,
                                           jp_username = r_username loginResult,
                                           jp_email = r_email loginResult,
                                           jp_role = r_role loginResult,
                                           jp_session_id = r_session_id loginResult \<rparr>
                           in (Inr \<lparr> lr_row = loginResult,
                                     access_token =
                                       generateAccessToken (jwt rt) (jwt_cfg rt) (js_now rt) payload,
                                     refresh_token =
                                       generateRefreshToken (jwt rt) (jwt_cfg rt) (js_now rt) payload \<rparr>,
                               db'))))))"

section \<open>Responses (\<open>utils/response.ts\<close>)\<close>

record api_error =
  err_code :: string
  err_message :: string
  err_details :: "string option"

text \<open>
  A response: the HTTP status and the JSON body (\<open>success\<close>, \<open>data\<close>, \<open>error\<close>,
  \<open>meta.timestamp\<close>).
\<close>

record 'a http_response =
  status_code :: nat
  success :: bool
  data :: "'a option"
  error :: "api_error option"
  meta_timestamp :: time

definition sendSuccess :: "'tok runtime \<Rightarrow> 'a \<Rightarrow> 'a http_response" where
  "sendSuccess rt d =
     \<lparr> status_code = 200, success = True, data = Some d, error = None,
       meta_timestamp = res_now rt \<rparr>"

text \<open>\<open>...(details && { details })\<close>: falsy details are left out of the body.\<close>

definition sendError ::
  "'tok runtime \<Rightarrow> nat \<Rightarrow> string \<Rightarrow> string \<Rightarrow> string option \<Rightarrow> 'a http_response" where
  "sendError rt statusCode code message details =
     \<lparr> status_code = statusCode, success = False, data = None,
       error = Some \<lparr> err_code = code, err_message = message, err_details = or_null details \<rparr>,
       meta_timestamp = res_now rt \<rparr>"

definition sendUnauthorized :: "'tok runtime \<Rightarrow> string \<Rightarrow> 'a http_response" where
  "sendUnauthorized rt message = sendError rt 401 ''48000'' message None"

definition sendInternalError :: "'tok runtime \<Rightarrow> string \<Rightarrow> string option \<Rightarrow> 'a http_response" where
  "sendInternalError rt message details = sendError rt 500 ''52000'' message details"

section \<open>Login controller (\<open>controllers/auth.controller.ts\<close>)\<close>

text \<open>
  The parts of an Express request the handlers read. A body field that is missing is
  \<open>None\<close>; otherwise it is the JSON value that was sent.
\<close>

record http_request =
  body_username :: "json option"
  body_password :: "json option"
  req_ip :: "string option"
  remote_address :: "string option"
  header_user_agent :: "string option"
  header_authorization :: "string option"

text \<open>The value of a field that is there (a missing one reads as \<open>undefined\<close>, here \<open>JNull\<close>).\<close>

definition value_of :: "json option \<Rightarrow> json" where
  "value_of x = (case x of None \<Rightarrow> JNull | Some v \<Rightarrow> v)"

definition login_controller ::
  "'tok runtime \<Rightarrow> http_request \<Rightarrow> database \<Rightarrow> 'tok login_result http_response \<times> database" where
  "login_controller rt req db =
     (let ipAddress = js_or (req_ip req) (remote_address req);
          userAgent = header_user_agent req
      in if falsy_value (body_username req) \<or> falsy_value (body_password req)
         then (sendError rt 400 ''50000'' ''Username and password are required'' None, db)
         else
           (case login rt \<lparr> req_username = value_of (body_username req),
                            req_password = value_of (body_password req) \<rparr>
                   ipAddress userAgent db of
              (Inr result, db') \<Rightarrow> (sendSuccess rt result, db')
            | (Inl message, db') \<Rightarrow>
                (if str_includes message ''Invalid username or password''
                 then sendError rt 401 ''48002'' message None
                 else if str_includes message ''locked''
                 then sendError rt 403 ''48003'' message None
                 else if str_includes message ''inactive''
                 then sendError rt 403 ''48004'' message None
                 else sendInternalError rt ''Login failed'' (Some message),
                 db')))"

section \<open>Authentication middleware (\<open>middleware/auth.middleware.ts\<close>)\<close>

text \<open>The object attached as \<open>req.admin\<close>.\<close>

record req_admin =
  adm_admin_id :: int
  adm_username :: string
  adm_email :: string
  adm_role :: string
  adm_mfa_enabled :: bool
  adm_is_active :: bool
  adm_failed_login_attempts :: int
  adm_created_at :: time
  adm_updated_at :: time

text \<open>
  The middleware either calls \<open>next()\<close> with \<open>req.admin\<close> and \<open>req.session_id\<close> set, or
  answers the request itself.
\<close>

datatype auth_outcome = Next req_admin string | Responded "unit http_response"

text \<open>
  An empty first result set makes \<open>sessionData[0].admin_id\<close> throw; the outer \<open>catch\<close>
  answers 500.
\<close>

definition authenticate ::
  "string runtime \<Rightarrow> http_request \<Rightarrow> database \<Rightarrow> auth_outcome \<times> database" where
  "authenticate rt req db =
     (case header_authorization req of
        None \<Rightarrow> (Responded (sendUnauthorized rt ''No token provided''), db)
      | Some authHeader \<Rightarrow>
          if authHeader = [] \<or> \<not> startsWith authHeader ''Bearer ''
          then (Responded (sendUnauthorized rt ''No token provided''), db)
          else
            (let token = drop 7 authHeader
             in case verifyAccessToken (jwt rt) (jwt_cfg rt) (js_now rt) token of
                  Inl e \<Rightarrow> (Responded (sendUnauthorized rt ''Invalid or expired token''), db)
                | Inr payload \<Rightarrow>
                    (case exec_admin_auth_verify_session rt (jp_session_id payload) db of
                       (None, db') \<Rightarrow> (Responded (sendUnauthorized rt ''Session not found''), db')
                     | (Some [], db') \<Rightarrow>
                         (Responded (sendUnauthorized rt ''Session not found''), db')
                     | (Some ([] # _), db') \<Rightarrow>
                         (Responded (sendInternalError rt ''Authentication failed'' None), db')
                     | (Some ((row # _) # _), db') \<Rightarrow>
                         if r_status row = ''fail''
                         then (Responded (sendUnauthorized rt (r_error_message row)), db')
                         else (Next \<lparr> adm_admin_id = r_admin_id row,
                                      adm_username = r_username row,
                                      adm_email = r_email row,
                                      adm_role = r_role row,
                                      adm_mfa_enabled = r_mfa_enabled row,
                                      adm_is_active = True,
                                      adm_failed_login_attempts = 0,
                                      adm_created_at = js_now rt,
                                      adm_updated_at = js_now rt \<rparr>
                                 (r_session_id row),
                               db'))))"

section \<open>The stored procedure \<open>admin_auth_login\<close>\<close>

text \<open>
  Modelled from the spec: the Lockout Ledger of the stored procedure \<open>admin_auth_login\<close>,
  whose SQL is not among the sources. \<open>isLocked\<close> is true iff \<open>locked_until\<close> is non-null
  and strictly in the future.
\<close>

definition isLocked :: "time \<Rightarrow> admin_user \<Rightarrow> bool" where
  "isLocked now account = (case locked_until account of None \<Rightarrow> False | Some t \<Rightarrow> now < t)"

text \<open>
  Modelled from the spec: \<open>recordFailure\<close> of the missing procedure increments
  \<open>failed_attempts\<close>; if the new value reaches the threshold 5 it sets
  \<open>locked_until = now + 30 minutes\<close>, otherwise it leaves \<open>locked_until\<close> null.
\<close>

definition recordFailure :: "time \<Rightarrow> admin_user \<Rightarrow> admin_user" where
  "recordFailure now account =
     (let n = failed_login_attempts account + 1
      in account\<lparr>failed_login_attempts := n,
                 locked_until := (if n \<ge> 5 then Some (now + 30 * 60) else None)\<rparr>)"

text \<open>
  Modelled from the spec: \<open>recordSuccess\<close> of the missing procedure sets
  \<open>failed_attempts = 0\<close> and \<open>locked_until = null\<close>.
\<close>

definition recordSuccess :: "admin_user \<Rightarrow> admin_user" where
  "recordSuccess account = account\<lparr>failed_login_attempts := 0, locked_until := None\<rparr>"

text \<open>
  Modelled from the spec: \<open>appendActivityLog\<close> and \<open>createSession\<close> of the missing
  procedure. The log is append-only; a session records its owner, creation and expiry
  times, and the client address and user agent, and starts active.
\<close>

definition appendActivityLog :: "activity_entry \<Rightarrow> database \<Rightarrow> database" where
  "appendActivityLog e db = db\<lparr>activity_log := activity_log db @ [e]\<rparr>"

definition createSession ::
  "string \<Rightarrow> int \<Rightarrow> string option \<Rightarrow> string option \<Rightarrow> time \<Rightarrow> time \<Rightarrow> database \<Rightarrow> database" where
  "createSession sid aid ip ua now ttl db =
     db\<lparr>admin_sessions := admin_sessions db @
          [\<lparr> session_id = sid, session_admin_id = aid, ip_address = ip, user_agent = ua,
             created_at = now, expires_at = now + ttl, session_is_active = True \<rparr>]\<rparr>"

text \<open>
  Modelled from the spec: the result rows of the missing procedure, a status discriminator
  with an error code and message on failure, the account summary and session id on success.
\<close>

definition fail_row :: "string \<Rightarrow> string \<Rightarrow> string \<Rightarrow> proc_row" where
  "fail_row etype ecode emessage =
     \<lparr> r_status = ''fail'', r_error_type = etype, r_error_code = ecode,
       r_error_message = emessage, r_admin_id = 0, r_username = [], r_email = [],
       r_role = [], r_mfa_enabled = False, r_session_id = [], r_expires_at = 0 \<rparr>"

definition success_row :: "admin_user \<Rightarrow> string \<Rightarrow> time \<Rightarrow> proc_row" where
  "success_row account sid expiry =
     \<lparr> r_status = ''success'', r_error_type = [], r_error_code = [],
       r_error_message = [], r_admin_id = admin_id account, r_username = username account,
       r_email = email account, r_role = role account, r_mfa_enabled = mfa_enabled account,
       r_session_id = sid, r_expires_at = expiry \<rparr>"

definition log_entry :: "string \<Rightarrow> string \<Rightarrow> string \<Rightarrow> string option \<Rightarrow> time \<Rightarrow> activity_entry" where
  "log_entry ltype atype actor ip now =
     \<lparr> log_type = ltype, activity_type = atype, log_message = atype @ '' '' @ actor,
       created_by = actor, log_ip_address = ip, start_time = now \<rparr>"

text \<open>
  Modelled from the spec: \<open>lookupAccountByIdentifier\<close> of the missing procedure, by
  username or email. The caller passes the identifier as it came in the body; how the
  procedure matches one that is not a string is a parameter.
\<close>

definition lookupAccountByIdentifier ::
  "(json \<Rightarrow> database \<Rightarrow> admin_user list) \<Rightarrow> json \<Rightarrow> database \<Rightarrow> admin_user list" where
  "lookupAccountByIdentifier other ident db =
     (case ident of JString s \<Rightarrow> select_admin_users s db | _ \<Rightarrow> other ident db)"

text \<open>
  Modelled from the spec: the login state machine of the missing procedure
  \<open>admin_auth_login(username, password_hash, ip, user_agent)\<close>, linear with early exits:
  look the account up by username or email (not found: \<open>InvalidCredentials\<close>, no log entry);
  locked: \<open>AccountLocked\<close>; inactive: \<open>AccountInactive\<close>; credential mismatch:
  \<open>recordFailure\<close>, \<open>InvalidCredentials\<close>; otherwise \<open>recordSuccess\<close>, a new session, and the
  account summary. Every branch but the first appends one activity-log entry, with the
  account's username as the actor. The procedure is handed the stored hash and compares it
  with the row's. Its parameters are the matching of identifiers that are not strings, the
  database clock, the session lifetime, the generator of session ids and the rendering of
  the lock expiry.
\<close>

definition admin_auth_login ::
  "(json \<Rightarrow> database \<Rightarrow> admin_user list) \<Rightarrow> time \<Rightarrow> time \<Rightarrow> (database \<Rightarrow> string)
     \<Rightarrow> (time \<Rightarrow> string)
     \<Rightarrow> json \<Rightarrow> string \<Rightarrow> string option \<Rightarrow> string option \<Rightarrow> database
     \<Rightarrow> proc_results \<times> database" where
  "admin_auth_login other now ttl new_id fmt p_username p_password_hash p_ip p_user_agent db =
     (case lookupAccountByIdentifier other p_username db of
        [] \<Rightarrow> (Some [[fail_row ''InvalidCredentials'' ''48002'' ''Invalid username or password'']], db)
      | account # _ \<Rightarrow>
          if isLocked now account
          then (Some [[fail_row ''AccountLocked'' ''48003''
                         (''Account is locked until '' @ fmt (case locked_until account of
                                                               None \<Rightarrow> now | Some t \<Rightarrow> t))]],
                appendActivityLog (log_entry ''ERROR'' ''account-locked'' (username account) p_ip now) db)
          else if \<not> is_active account
          then (Some [[fail_row ''AccountInactive'' ''48004'' ''Account is inactive'']],
                appendActivityLog (log_entry ''ERROR'' ''account-inactive'' (username account) p_ip now) db)
          else if p_password_hash \<noteq> password_hash account
          then (Some [[fail_row ''InvalidCredentials'' ''48002'' ''Invalid username or password'']],
                appendActivityLog (log_entry ''ERROR'' ''invalid-password'' (username account) p_ip now)
                  (update_where_admin_id (admin_id account) (recordFailure now) db))
          else
            (let sid = new_id db
             in (Some [[success_row account sid (now + ttl)]],
                 appendActivityLog (log_entry ''INFO'' ''login-success'' (username account) p_ip now)
                   (createSession sid (admin_id account) p_ip p_user_agent now ttl
                      (update_where_admin_id (admin_id account) recordSuccess db)))))"

section \<open>The stored procedure \<open>admin_auth_verify_session\<close>\<close>

text \<open>
  Modelled from the spec: session verification of the missing procedure
  \<open>admin_auth_verify_session(session_id)\<close>. The session must exist, be active and be
  unexpired; any failure is the single \<open>SessionInvalid\<close>. On success the owning account's
  current role, email and username are fetched again and returned with the session id.
\<close>

definition admin_auth_verify_session ::
  "time \<Rightarrow> string \<Rightarrow> database \<Rightarrow> proc_results \<times> database" where
  "admin_auth_verify_session now p_session_id db =
     (let invalid = (Some [[fail_row ''SessionInvalid'' ''48010'' ''Invalid or expired session'']], db)
      in case filter (\<lambda>s. session_id s = p_session_id) (admin_sessions db) of
           [] \<Rightarrow> invalid
         | s # _ \<Rightarrow>
             if \<not> session_is_active s \<or> expires_at s \<le> now then invalid
             else
               (case filter (\<lambda>u. admin_id u = session_admin_id s) (admin_users db) of
                  [] \<Rightarrow> invalid
                | account # _ \<Rightarrow> (Some [[success_row account (session_id s) (expires_at s)]], db)))"

section \<open>Concurrent login attempts\<close>



text \<open>A request in flight: its environment, what it submitted, and \<open>users[0]\<close> once read.\<close>

record 'tok attempt =
  at_rt :: "'tok runtime"
  at_request :: LoginRequest
  at_row :: "admin_user option"

definition run_select :: "'tok attempt \<Rightarrow> database \<Rightarrow> 'tok attempt" where
  "run_select a db =
     a\<lparr>at_row :=
         (case find_admin_users (at_rt a) (req_username (at_request a)) db of
            Inr (user # _) \<Rightarrow> Some user
          | _ \<Rightarrow> None)\<rparr>"

text \<open>
  The request goes on to its \<open>UPDATE\<close> when the row it read is not locked and is active
  and \<open>bcrypt.compare\<close> has answered false.
\<close>

definition reaches_update :: "'tok attempt \<Rightarrow> bool" where
  "reaches_update a =
     (case at_row a of
        None \<Rightarrow> False
      | Some user \<Rightarrow>
          running_lock (js_now (at_rt a)) user = None \<and> is_active user \<and>
          bcrypt_compare (at_rt a) (req_password (at_request a)) (password_hash user) = Inr False)"

definition run_update :: "'tok attempt \<Rightarrow> database \<Rightarrow> database" where
  "run_update a db =
     (case at_row a of
        None \<Rightarrow> db
      | Some user \<Rightarrow>
          if reaches_update a then update_failed_login (sql_now (at_rt a)) (admin_id user) db
          else db)"




section \<open>Instances used to exercise the model\<close>

text \<open>
  A symbolic token library: a token is the payload, the secret it was signed with and its
  expiry time, or something that does not parse. As with HMAC, which pads a short secret
  with zero bytes, two secrets that differ only in trailing zero bytes are the same key.
  Lifetimes are a number followed by one of the units \<open>s\<close>, \<open>m\<close>, \<open>h\<close>, \<open>d\<close>.
\<close>

datatype sym_token = Signed JWTPayload string time | Malformed string

definition digit_of :: "char \<Rightarrow> nat option" where
  "digit_of c = (let n = (of_char c :: nat) in if 48 \<le> n \<and> n \<le> 57 then Some (n - 48) else None)"

definition unit_seconds :: "string \<Rightarrow> nat" where
  "unit_seconds u =
     (if u = ''s'' then 1 else if u = ''m'' then 60 else if u = ''h'' then 3600
      else if u = ''d'' then 86400 else 0)"

fun timespan_from :: "nat \<Rightarrow> string \<Rightarrow> nat" where
  "timespan_from acc [] = acc"
| "timespan_from acc (c # cs) =
     (case digit_of c of
        Some d \<Rightarrow> timespan_from (10 * acc + d) cs
      | None \<Rightarrow> acc * unit_seconds (c # cs))"

definition timespan :: "string \<Rightarrow> time" where
  "timespan e = int (timespan_from 0 e)"

definition hmac_key :: "string \<Rightarrow> string" where
  "hmac_key secret = rev (dropWhile (\<lambda>c. c = CHR 0x00) (rev secret))"

definition sym_jwt :: "sym_token jwt_lib" where
  "sym_jwt =
     \<lparr> jwt_sign = (\<lambda>payload secret expiresIn now. Signed payload secret (now + timespan expiresIn)),
       jwt_decode = (\<lambda>token.
          case token of
            Malformed _ \<Rightarrow> None
          | Signed payload _ expiry \<Rightarrow> Some (payload, Some expiry)),
       jwt_signature_valid = (\<lambda>token secret.
          case token of
            Malformed _ \<Rightarrow> False
          | Signed _ k _ \<Rightarrow> hmac_key k = hmac_key secret) \<rparr>"

text \<open>A fixture account, after \<open>TEST_USERS.VALID_ADMIN\<close> of the test fixtures, and its store.\<close>

definition fixture_user :: admin_user where
  "fixture_user =
     \<lparr> admin_id = 1, username = ''test_admin_valid'', email = ''test_admin@example.com'',
       password_hash = ''hash:TestAdmin@123'', role = ''admin'', is_active = True,
       failed_login_attempts = 0, locked_until = None, mfa_enabled = False \<rparr>"

definition fixture_db :: "admin_user \<Rightarrow> database" where
  "fixture_db u = \<lparr> admin_users = [u], admin_sessions = [], activity_log = [] \<rparr>"

text \<open>
  A fixture environment. \<open>bcrypt.compare\<close> rejects data that is not a string, and a string
  matches the hash \<open>hash:\<close> followed by itself. An identifier that is not a string finds no
  row. The clocks read 1000, sessions last 8 hours, and the procedure is the one modelled
  above.
\<close>

definition fixture_compare :: "json \<Rightarrow> string \<Rightarrow> string + bool" where
  "fixture_compare submitted hashed =
     (case submitted of
        JString plain \<Rightarrow> Inr (hashed = ''hash:'' @ plain)
      | _ \<Rightarrow> Inl ''data and hash must be strings'')"

definition fixture_rt :: "sym_token runtime" where
  "fixture_rt =
     \<lparr> bcrypt_compare = fixture_compare,
       select_by_value = (\<lambda>v db. Inr []),
       js_now = 1000, sql_now = 1000, res_now = 1000,
       date_string = (\<lambda>t. ''<date>''),
       exec_admin_auth_login =
         admin_auth_login (\<lambda>v db. []) 1000 28800 (\<lambda>db. ''session-1'') (\<lambda>t. ''<date>''),
       exec_admin_auth_verify_session = (\<lambda>sid db. (Some [], db)),
       jwt = sym_jwt,
       jwt_cfg = config_of_env Map.empty \<rparr>"

definition fixture_request :: "json option \<Rightarrow> json option \<Rightarrow> http_request" where
  "fixture_request u p =
     \<lparr> body_username = u, body_password = p, req_ip = Some ''127.0.0.1'',
       remote_address = None, header_user_agent = Some ''test-agent'',
       header_authorization = None \<rparr>"

text \<open>
  A token library over strings that knows two access tokens for the same session, one
  claiming the role \<open>admin\<close> and one claiming the role \<open>viewer\<close>.
\<close>

definition fixture_payload :: "string \<Rightarrow> JWTPayload" where
  "fixture_payload r =
     \<lparr> jp_admin_id = 1, jp_username = ''test_admin_valid'', jp_email = ''test_admin@example.com'',
       jp_role = r, jp_session_id = ''session-1'' \<rparr>"

definition table_jwt :: "string jwt_lib" where
  "table_jwt =
     \<lparr> jwt_sign = (\<lambda>payload secret expiresIn now. ''token-'' @ jp_role payload),
       jwt_decode = (\<lambda>token.
          if token = ''token-admin'' then Some (fixture_payload ''admin'', Some 29700)
          else if token = ''token-viewer'' then Some (fixture_payload ''viewer'', Some 29700)
          else None),
       jwt_signature_valid = (\<lambda>token secret. secret = ''your_jwt_secret_key'') \<rparr>"

definition fixture_http_rt :: "string runtime" where
  "fixture_http_rt =
     \<lparr> bcrypt_compare = fixture_compare,
       select_by_value = (\<lambda>v db. Inr []),
       js_now = 1000, sql_now = 1000, res_now = 1000,
       date_string = (\<lambda>t. ''<date>''),
       exec_admin_auth_login =
         admin_auth_login (\<lambda>v db. []) 1000 28800 (\<lambda>db. ''session-1'') (\<lambda>t. ''<date>''),
       exec_admin_auth_verify_session = admin_auth_verify_session 1000,
       jwt = table_jwt,
       jwt_cfg = config_of_env Map.empty \<rparr>"

text \<open>The store after the fixture account has logged in once.\<close>

definition fixture_session_db :: database where
  "fixture_session_db =
     \<lparr> admin_users = [fixture_user],
       admin_sessions =
         [\<lparr> session_id = ''session-1'', session_admin_id = 1, ip_address = Some ''127.0.0.1'',
            user_agent = Some ''test-agent'', created_at = 900, expires_at = 29700,
            session_is_active = True \<rparr>],
       activity_log = [] \<rparr>"

definition bearer_request :: "string \<Rightarrow> http_request" where
  "bearer_request token =
     \<lparr> body_username = None, body_password = None, req_ip = Some ''127.0.0.1'',
       remote_address = None, header_user_agent = Some ''test-agent'',
       header_authorization = Some (''Bearer '' @ token) \<rparr>"




section \<open>Properties of the login service\<close>

text \<open>The account query does not involve \<open>bcrypt.compare\<close>.\<close>

lemma find_admin_users_bcrypt:
  "find_admin_users (rt\<lparr>bcrypt_compare := cmp\<rparr>) ident db = find_admin_users rt ident db"
  by (simp add: find_admin_users_def split: json.splits)

text \<open>
  C1. When the looked-up account carries a \<open>locked_until\<close> strictly after the current time,
  \<open>login\<close> throws the lock error whatever \<open>bcrypt.compare\<close> would answer (the comparison
  \<open>cmp\<close> is arbitrary, so also when the password is the right one), and the store is
  returned as it was: the counter is not incremented and the lock is not extended.
\<close>

theorem locked_account_rejected_unchanged:
  assumes "find_admin_users rt (req_username loginData) db = Inr (user # rest)"
    and "locked_until user = Some t"
    and "js_now rt < t"
  shows "login (rt\<lparr>bcrypt_compare := cmp\<rparr>) loginData ipAddress userAgent db =
           (Inl (''Account is locked until '' @ date_string rt t), db)"
  using assms by (simp add: login_def find_admin_users_bcrypt running_lock_def)

text \<open>The account locked after failed attempts, presented with its correct password.\<close>

theorem locked_account_rejected_unchanged_witness:
  "find_admin_users fixture_rt (JString ''test_admin_valid'')
      (fixture_db (fixture_user\<lparr>failed_login_attempts := 4, locked_until := Some 2800\<rparr>)) =
     Inr [fixture_user\<lparr>failed_login_attempts := 4, locked_until := Some 2800\<rparr>] \<and>
   js_now fixture_rt < 2800 \<and>
   login (fixture_rt\<lparr>bcrypt_compare := (\<lambda>plain hashed. Inr True)\<rparr>)
      \<lparr>req_username = JString ''test_admin_valid'', req_password = JString ''TestAdmin@123''\<rparr>
      None None
      (fixture_db (fixture_user\<lparr>failed_login_attempts := 4, locked_until := Some 2800\<rparr>)) =
     (Inl ''Account is locked until <date>'',
      fixture_db (fixture_user\<lparr>failed_login_attempts := 4, locked_until := Some 2800\<rparr>))"
proof -
  have sel: "find_admin_users fixture_rt
      (req_username \<lparr>req_username = JString ''test_admin_valid'',
                     req_password = JString ''TestAdmin@123''\<rparr>)
      (fixture_db (fixture_user\<lparr>failed_login_attempts := 4, locked_until := Some 2800\<rparr>)) =
     Inr (fixture_user\<lparr>failed_login_attempts := 4, locked_until := Some 2800\<rparr> # [])"
    by (simp add: find_admin_users_def select_admin_users_def fixture_db_def fixture_user_def)
  have lk: "locked_until (fixture_user\<lparr>failed_login_attempts := 4, locked_until := Some 2800\<rparr>) =
              Some 2800"
    by simp
  have fut: "js_now fixture_rt < 2800"
    by (simp add: fixture_rt_def)
  show ?thesis
    using sel fut
      locked_account_rejected_unchanged [OF sel lk fut, of "\<lambda>plain hashed. Inr True" None None]
    by (simp add: fixture_rt_def)
qed

text \<open>
  C8. When the looked-up account is not under a running lock and its \<open>is_active\<close> flag is
  false, \<open>login\<close> throws the inactive-account error whatever \<open>bcrypt.compare\<close> would
  answer, and the store is returned as it was: no session row is added and the counter is
  unchanged.
\<close>

theorem inactive_account_rejected_unchanged:
  assumes "find_admin_users rt (req_username loginData) db = Inr (user # rest)"
    and "\<forall>t. locked_until user = Some t \<longrightarrow> t \<le> js_now rt"
    and "\<not> is_active user"
  shows "login (rt\<lparr>bcrypt_compare := cmp\<rparr>) loginData ipAddress userAgent db =
           (Inl ''Account is inactive'', db)"
  using assms
  by (auto simp add: login_def find_admin_users_bcrypt running_lock_def split: option.splits)

text \<open>The deactivated account, presented with its correct password.\<close>

theorem inactive_account_rejected_unchanged_witness:
  "find_admin_users fixture_rt (JString ''test_admin_valid'')
      (fixture_db (fixture_user\<lparr>is_active := False\<rparr>)) =
     Inr [fixture_user\<lparr>is_active := False\<rparr>] \<and>
   login (fixture_rt\<lparr>bcrypt_compare := (\<lambda>plain hashed. Inr True)\<rparr>)
      \<lparr>req_username = JString ''test_admin_valid'', req_password = JString ''TestAdmin@123''\<rparr>
      None None (fixture_db (fixture_user\<lparr>is_active := False\<rparr>)) =
     (Inl ''Account is inactive'', fixture_db (fixture_user\<lparr>is_active := False\<rparr>))"
proof -
  have sel: "find_admin_users fixture_rt
      (req_username \<lparr>req_username = JString ''test_admin_valid'',
                     req_password = JString ''TestAdmin@123''\<rparr>)
      (fixture_db (fixture_user\<lparr>is_active := False\<rparr>)) =
     Inr (fixture_user\<lparr>is_active := False\<rparr> # [])"
    by (simp add: find_admin_users_def select_admin_users_def fixture_db_def fixture_user_def)
  have nolock: "\<forall>t. locked_until (fixture_user\<lparr>is_active := False\<rparr>) = Some t \<longrightarrow>
                    t \<le> js_now fixture_rt"
    by (simp add: fixture_user_def)
  have inactive: "\<not> is_active (fixture_user\<lparr>is_active := False\<rparr>)"
    by simp
  show ?thesis
    using sel inactive_account_rejected_unchanged
            [OF sel nolock inactive, of "\<lambda>plain hashed. Inr True" None None]
    by simp
qed

text \<open>The controller answers that error with status 403 and code 48004.\<close>

lemma inactive_account_response:
  assumes "\<not> falsy_value (body_username req)" and "\<not> falsy_value (body_password req)"
    and "find_admin_users rt (value_of (body_username req)) db = Inr (user # rest)"
    and "\<forall>t. locked_until user = Some t \<longrightarrow> t \<le> js_now rt"
    and "\<not> is_active user"
  shows "login_controller rt req db = (sendError rt 403 ''48004'' ''Account is inactive'' None, db)"
proof -
  have "login rt \<lparr>req_username = value_of (body_username req),
                  req_password = value_of (body_password req)\<rparr>
          (js_or (req_ip req) (remote_address req)) (header_user_agent req) db =
        (Inl ''Account is inactive'', db)"
    using assms(3-5) by (auto simp add: login_def running_lock_def split: option.splits)
  then show ?thesis
    using assms(1,2) by (simp add: login_controller_def Let_def)
qed

text \<open>
  Likewise for a locked account: status 403 and code 48003, as long as the rendering of
  the date does not happen to contain the text of the credential error.
\<close>

lemma locked_account_response:
  assumes "\<not> falsy_value (body_username req)" and "\<not> falsy_value (body_password req)"
    and "find_admin_users rt (value_of (body_username req)) db = Inr (user # rest)"
    and "locked_until user = Some t" and "js_now rt < t"
    and "\<not> str_includes (date_string rt t) ''Invalid username or password''"
  shows "login_controller rt req db =
           (sendError rt 403 ''48003'' (''Account is locked until '' @ date_string rt t) None, db)"
proof -
  have "login rt \<lparr>req_username = value_of (body_username req),
                  req_password = value_of (body_password req)\<rparr>
          (js_or (req_ip req) (remote_address req)) (header_user_agent req) db =
        (Inl (''Account is locked until '' @ date_string rt t), db)"
    using assms(3-5) by (simp add: login_def running_lock_def)
  then show ?thesis
    using assms(1,2,6) by (simp add: login_controller_def Let_def)
qed

text \<open>
  C10. A login request whose username or password is missing, null, the empty string or
  any other falsy value is answered with status 400 and code 50000. The service is not
  called: the answer does not depend on the store, and the store is returned as it was (no
  counter changes, no session, no activity-log entry).
\<close>

theorem missing_credentials_rejected:
  assumes "falsy_value (body_username req) \<or> falsy_value (body_password req)"
  shows "login_controller rt req db =
           (sendError rt 400 ''50000'' ''Username and password are required'' None, db)"
  using assms by (auto simp add: login_controller_def Let_def)

text \<open>A request with an empty password, against the fixture store.\<close>

theorem missing_credentials_rejected_witness:
  "falsy_value (body_password
      (fixture_request (Some (JString ''test_admin_valid'')) (Some (JString '''')))) \<and>
   login_controller fixture_rt
      (fixture_request (Some (JString ''test_admin_valid'')) (Some (JString '''')))
      (fixture_db fixture_user) =
     (\<lparr> status_code = 400, success = False, data = None,
        error = Some \<lparr> err_code = ''50000'',
                       err_message = ''Username and password are required'',
                       err_details = None \<rparr>,
        meta_timestamp = 1000 \<rparr>, fixture_db fixture_user)"
proof -
  let ?req = "fixture_request (Some (JString ''test_admin_valid'')) (Some (JString ''''))"
  have h: "falsy_value (body_password ?req)"
    by (simp add: falsy_value_def fixture_request_def)
  then have h': "falsy_value (body_username ?req) \<or> falsy_value (body_password ?req)"
    by simp
  show ?thesis
    using h missing_credentials_rejected [OF h', of fixture_rt "fixture_db fixture_user"]
    by (simp add: sendError_def or_null_def falsy_def fixture_rt_def)
qed

text \<open>The same for a missing field, a \<open>null\<close>, a zero and a \<open>false\<close>.\<close>

lemma falsy_values:
  "falsy_value None" "falsy_value (Some JNull)" "falsy_value (Some (JNumber 0))"
  "falsy_value (Some (JBool False))" "falsy_value (Some (JString []))"
  by (simp_all add: falsy_value_def)







text \<open>
  C2. The fixture account has three failed attempts, is active and is not locked; a login
  with a wrong password sets the counter to 4 and sets \<open>locked_until\<close> to the database
  time plus 30 minutes (1000 + 1800). The \<open>CASE\<close> of the \<open>UPDATE\<close> adds one to the counter
  that the assignment before it has already incremented, so the account is locked when the
  new value reaches 4, one attempt before the threshold of 5.
\<close>

theorem fourth_failure_locks_account:
  "login fixture_rt
      \<lparr>req_username = JString ''test_admin_valid'',
       req_password = JString ''WrongPassword@123''\<rparr>
      None None (fixture_db (fixture_user\<lparr>failed_login_attempts := 3\<rparr>)) =
     (Inl ''Invalid username or password'',
      fixture_db (fixture_user\<lparr>failed_login_attempts := 4, locked_until := Some 2800\<rparr>))"
  by (simp add: login_def find_admin_users_def fixture_rt_def fixture_compare_def fixture_db_def
      fixture_user_def select_admin_users_def running_lock_def update_failed_login_def
      update_where_admin_id_def set_failed_login_def)

text \<open>In general the statement locks the row as soon as the old counter is at least 3.\<close>

lemma set_failed_login_result:
  "failed_login_attempts (set_failed_login now u) = failed_login_attempts u + 1 \<and>
   locked_until (set_failed_login now u) =
     (if failed_login_attempts u + 1 \<ge> 4 then Some (now + 1800) else None)"
  by (simp add: set_failed_login_def Let_def)

text \<open>
  C3. The fixture account is active and not locked; a login with a wrong password throws
  the credential error and leaves the activity log empty: the service never reaches the stored
  procedure, which is the only writer of the log.
\<close>

theorem wrong_password_writes_no_activity_log:
  "fst (login fixture_rt
          \<lparr>req_username = JString ''test_admin_valid'',
           req_password = JString ''WrongPassword@123''\<rparr>
          (Some ''127.0.0.1'') (Some ''test-agent'') (fixture_db fixture_user)) =
     Inl ''Invalid username or password'' \<and>
   activity_log (snd (login fixture_rt
          \<lparr>req_username = JString ''test_admin_valid'',
           req_password = JString ''WrongPassword@123''\<rparr>
          (Some ''127.0.0.1'') (Some ''test-agent'') (fixture_db fixture_user))) = []"
  by (simp add: login_def find_admin_users_def fixture_rt_def fixture_compare_def fixture_db_def
      fixture_user_def select_admin_users_def running_lock_def update_failed_login_def
      update_where_admin_id_def set_failed_login_def)

text \<open>
  The same holds for every store and environment: when \<open>login\<close> stops at the lock check,
  the active check or the password comparison, the activity log is what it was.
\<close>

lemma login_early_exit_keeps_activity_log:
  assumes "find_admin_users rt (req_username loginData) db = Inr (user # rest)"
    and "running_lock (js_now rt) user \<noteq> None \<or> \<not> is_active user \<or>
         bcrypt_compare rt (req_password loginData) (password_hash user) \<noteq> Inr True"
  shows "activity_log (snd (login rt loginData ipAddress userAgent db)) = activity_log db"
  using assms
  by (auto simp add: login_def update_failed_login_def update_where_admin_id_def
      split: option.splits sum.splits bool.splits)

section \<open>Properties of the authentication middleware\<close>

text \<open>Once the token has verified, only its session id reaches the rest of the middleware.\<close>

lemma authenticate_verified:
  assumes "verifyAccessToken (jwt rt) (jwt_cfg rt) (js_now rt) token = Inr payload"
  shows "authenticate rt (req\<lparr>header_authorization := Some (''Bearer '' @ token)\<rparr>) db =
     (case exec_admin_auth_verify_session rt (jp_session_id payload) db of
        (None, db') \<Rightarrow> (Responded (sendUnauthorized rt ''Session not found''), db')
      | (Some [], db') \<Rightarrow> (Responded (sendUnauthorized rt ''Session not found''), db')
      | (Some ([] # _), db') \<Rightarrow>
          (Responded (sendInternalError rt ''Authentication failed'' None), db')
      | (Some ((row # _) # _), db') \<Rightarrow>
          if r_status row = ''fail''
          then (Responded (sendUnauthorized rt (r_error_message row)), db')
          else (Next \<lparr> adm_admin_id = r_admin_id row, adm_username = r_username row,
                       adm_email = r_email row, adm_role = r_role row,
                       adm_mfa_enabled = r_mfa_enabled row, adm_is_active = True,
                       adm_failed_login_attempts = 0, adm_created_at = js_now rt,
                       adm_updated_at = js_now rt \<rparr>
                  (r_session_id row), db'))"
  using assms by (simp add: authenticate_def startsWith_def Let_def)

text \<open>
  C6. For a request that passes session verification (the token verifies and the session
  procedure returns a row that is not a failure), the principal attached to the request is
  built from the columns of that row, which was looked up by the token's session id. A
  second verified token with the same session id gives the same outcome, whatever its other
  claims are.
\<close>

theorem principal_from_session_store:
  assumes v1: "verifyAccessToken (jwt rt) (jwt_cfg rt) (js_now rt) token1 = Inr payload1"
    and v2: "verifyAccessToken (jwt rt) (jwt_cfg rt) (js_now rt) token2 = Inr payload2"
    and sid: "jp_session_id payload1 = jp_session_id payload2"
    and lookup: "exec_admin_auth_verify_session rt (jp_session_id payload1) db =
                   (Some ((row # rows) # sets), db')"
    and ok: "r_status row \<noteq> ''fail''"
  shows "authenticate rt (req\<lparr>header_authorization := Some (''Bearer '' @ token1)\<rparr>) db =
           (Next \<lparr> adm_admin_id = r_admin_id row, adm_username = r_username row,
                   adm_email = r_email row, adm_role = r_role row,
                   adm_mfa_enabled = r_mfa_enabled row, adm_is_active = True,
                   adm_failed_login_attempts = 0, adm_created_at = js_now rt,
                   adm_updated_at = js_now rt \<rparr>
              (r_session_id row), db') \<and>
         authenticate rt (req\<lparr>header_authorization := Some (''Bearer '' @ token2)\<rparr>) db =
         authenticate rt (req\<lparr>header_authorization := Some (''Bearer '' @ token1)\<rparr>) db"
proof -
  have a1: "authenticate rt (req\<lparr>header_authorization := Some (''Bearer '' @ token1)\<rparr>) db =
           (Next \<lparr> adm_admin_id = r_admin_id row, adm_username = r_username row,
                   adm_email = r_email row, adm_role = r_role row,
                   adm_mfa_enabled = r_mfa_enabled row, adm_is_active = True,
                   adm_failed_login_attempts = 0, adm_created_at = js_now rt,
                   adm_updated_at = js_now rt \<rparr>
              (r_session_id row), db')"
    unfolding authenticate_verified [OF v1] using lookup ok by simp
  have a2: "authenticate rt (req\<lparr>header_authorization := Some (''Bearer '' @ token2)\<rparr>) db =
         authenticate rt (req\<lparr>header_authorization := Some (''Bearer '' @ token1)\<rparr>) db"
    by (simp only: authenticate_verified [OF v1] authenticate_verified [OF v2] sid)
  from a1 a2 show ?thesis by simp
qed

text \<open>
  The fixture session belongs to an account whose stored role is \<open>admin\<close>. A token that
  claims the role \<open>viewer\<close> and one that claims \<open>admin\<close> attach the same principal, with
  the stored role.
\<close>

lemma fixture_token_admin:
  "verifyAccessToken (jwt fixture_http_rt) (jwt_cfg fixture_http_rt) (js_now fixture_http_rt)
     ''token-admin'' = Inr (fixture_payload ''admin'')"
  by (simp add: verifyAccessToken_def jwt_verify_def fixture_http_rt_def table_jwt_def
      config_of_env_def env_or_def)

lemma fixture_token_viewer:
  "verifyAccessToken (jwt fixture_http_rt) (jwt_cfg fixture_http_rt) (js_now fixture_http_rt)
     ''token-viewer'' = Inr (fixture_payload ''viewer'')"
  by (simp add: verifyAccessToken_def jwt_verify_def fixture_http_rt_def table_jwt_def
      config_of_env_def env_or_def)

lemma fixture_session_lookup:
  "exec_admin_auth_verify_session fixture_http_rt (jp_session_id (fixture_payload ''viewer''))
     fixture_session_db =
   (Some ((success_row fixture_user ''session-1'' 29700 # []) # []), fixture_session_db)"
  by (simp add: fixture_http_rt_def admin_auth_verify_session_def fixture_payload_def
      fixture_session_db_def fixture_user_def Let_def)

theorem principal_from_session_store_witness:
  "authenticate fixture_http_rt (bearer_request ''token-viewer'') fixture_session_db =
     (Next \<lparr> adm_admin_id = 1, adm_username = ''test_admin_valid'',
             adm_email = ''test_admin@example.com'', adm_role = ''admin'',
             adm_mfa_enabled = False, adm_is_active = True,
             adm_failed_login_attempts = 0, adm_created_at = 1000,
             adm_updated_at = 1000 \<rparr> ''session-1'', fixture_session_db) \<and>
   authenticate fixture_http_rt (bearer_request ''token-admin'') fixture_session_db =
   authenticate fixture_http_rt (bearer_request ''token-viewer'') fixture_session_db"
proof -
  have sid: "jp_session_id (fixture_payload ''viewer'') = jp_session_id (fixture_payload ''admin'')"
    by (simp add: fixture_payload_def)
  have ok: "r_status (success_row fixture_user ''session-1'' 29700) \<noteq> ''fail''"
    by (simp add: success_row_def)
  have r1: "bearer_request ''token-viewer'' =
      (bearer_request [])\<lparr>header_authorization := Some (''Bearer '' @ ''token-viewer'')\<rparr>"
    by (simp add: bearer_request_def)
  have r2: "bearer_request ''token-admin'' =
      (bearer_request [])\<lparr>header_authorization := Some (''Bearer '' @ ''token-admin'')\<rparr>"
    by (simp add: bearer_request_def)
  show ?thesis
    using principal_from_session_store
            [OF fixture_token_viewer fixture_token_admin sid fixture_session_lookup ok,
             of "bearer_request []"]
    by (simp only: r1 r2) (simp add: success_row_def fixture_user_def fixture_http_rt_def)
qed

section \<open>Properties of the token issuer\<close>

lemma digit_of_7: "digit_of CHR ''7'' = Some 7"
  by (simp add: digit_of_def)

lemma digit_of_d: "digit_of CHR ''d'' = None"
  by (simp add: digit_of_def)

lemma timespan_7d: "timespan ''7d'' = 604800"
  by (simp add: timespan_def digit_of_7 digit_of_d unit_seconds_def)

lemma digit_of_8: "digit_of CHR ''8'' = Some 8"
  by (simp add: digit_of_def)

lemma digit_of_h: "digit_of CHR ''h'' = None"
  by (simp add: digit_of_def)

lemma timespan_8h: "timespan ''8h'' = 28800"
  by (simp add: timespan_def digit_of_8 digit_of_h unit_seconds_def)


lemma config_of_empty_env:
  "config_of_env Map.empty =
     \<lparr> JWT_SECRET = ''your_jwt_secret_key'', JWT_EXPIRES_IN = ''8h'',
       JWT_REFRESH_SECRET = ''your_refresh_secret'', JWT_REFRESH_EXPIRES_IN = ''7d'' \<rparr>"
  by (simp add: config_of_env_def env_or_def)









section \<open>Properties of a successful login\<close>

text \<open>
  When \<open>login\<close> returns a result, it has passed its three checks and the procedure has
  returned a first row that is not a failure.
\<close>

lemma login_success_cases:
  assumes ok: "login rt loginData ipAddress userAgent db = (Inr result, db')"
  obtains user rest row rows sets where
    "find_admin_users rt (req_username loginData) db = Inr (user # rest)"
    and "running_lock (js_now rt) user = None"
    and "is_active user"
    and "bcrypt_compare rt (req_password loginData) (password_hash user) = Inr True"
    and "exec_admin_auth_login rt (req_username loginData) (password_hash user)
           (or_null ipAddress) (or_null userAgent) db = (Some ((row # rows) # sets), db')"
    and "r_status row \<noteq> ''fail''"
    and "lr_row result = row"
proof (cases "find_admin_users rt (req_username loginData) db")
  case (Inl queryError)
  with ok show thesis by (simp add: login_def)
next
  case (Inr users)
  note found = Inr
  show thesis
  proof (cases users)
    case Nil
    with found ok show thesis by (simp add: login_def)
  next
    case (Cons user rest)
    note sel = found [unfolded Cons]
    show thesis
    proof (cases "running_lock (js_now rt) user")
      case (Some t)
      with sel ok show thesis by (simp add: login_def)
    next
      case None
      note nolock = None
      show thesis
      proof (cases "is_active user")
        case False
        with sel nolock ok show thesis by (simp add: login_def)
      next
        case True
        note active = True
        show thesis
        proof (cases "bcrypt_compare rt (req_password loginData) (password_hash user)")
          case (Inl compareError)
          with sel nolock active ok show thesis by (simp add: login_def)
        next
          case (Inr matches)
          note compared = Inr
          show thesis
          proof (cases matches)
            case False
            with compared sel nolock active ok show thesis by (simp add: login_def)
          next
            case True
            from compared True
            have cmp: "bcrypt_compare rt (req_password loginData) (password_hash user) = Inr True"
              by simp
            obtain res db1 where call:
              "exec_admin_auth_login rt (req_username loginData) (password_hash user)
                 (or_null ipAddress) (or_null userAgent) db = (res, db1)"
              by (meson surj_pair)
            show thesis
            proof (cases res)
              case None
              with sel nolock active cmp call ok show thesis by (simp add: login_def)
            next
              case (Some results)
              note some = Some
              show thesis
              proof (cases results)
                case Nil
                with some sel nolock active cmp call ok show thesis by (simp add: login_def)
              next
                case (Cons first sets)
                note res_cons = Cons
                show thesis
                proof (cases first)
                  case Nil
                  with res_cons some sel nolock active cmp call ok show thesis
                    by (simp add: login_def)
                next
                  case (Cons row rows)
                  from Cons res_cons some sel nolock active cmp call ok
                  have "r_status row \<noteq> ''fail''" and "db1 = db'" and "lr_row result = row"
                    by (auto simp add: login_def Let_def split: if_splits)
                  with Cons res_cons some sel nolock active cmp call that show thesis by simp
                qed
              qed
            qed
          qed
        qed
      qed
    qed
  qed
qed

text \<open>The only branch of the procedure whose row is not a failure is the last one.\<close>

lemma admin_auth_login_success:
  assumes "admin_auth_login other now ttl new_id fmt ident h ip ua db =
             (Some ((row # rows) # sets), db')"
    and "r_status row \<noteq> ''fail''"
  shows "\<exists>account rest.
           lookupAccountByIdentifier other ident db = account # rest \<and>
           db' = appendActivityLog (log_entry ''INFO'' ''login-success'' (username account) ip now)
                   (createSession (new_id db) (admin_id account) ip ua now ttl
                      (update_where_admin_id (admin_id account) recordSuccess db)) \<and>
           row = success_row account (new_id db) (now + ttl)"
proof (cases "lookupAccountByIdentifier other ident db")
  case Nil
  with assms show ?thesis
    by (auto simp add: admin_auth_login_def fail_row_def)
next
  case (Cons account rest)
  with assms show ?thesis
    by (auto simp add: admin_auth_login_def fail_row_def Let_def split: if_splits)
qed

text \<open>An update by id keeps the names, so the lookup finds the rewritten rows in place.\<close>

lemma select_after_recordSuccess:
  "select_admin_users ident (update_where_admin_id aid recordSuccess db) =
     map (\<lambda>u. if admin_id u = aid then recordSuccess u else u) (select_admin_users ident db)"
proof -
  have "filter (\<lambda>u. username u = ident \<or> email u = ident)
          (map (\<lambda>u. if admin_id u = aid then recordSuccess u else u) xs) =
        map (\<lambda>u. if admin_id u = aid then recordSuccess u else u)
          (filter (\<lambda>u. username u = ident \<or> email u = ident) xs)" for xs
    by (induction xs) (simp_all add: recordSuccess_def)
  then show ?thesis
    by (simp add: select_admin_users_def update_where_admin_id_def)
qed

text \<open>
  C5. With the stored procedure as the specification describes it, every login that
  succeeds leaves the account it authenticated with \<open>failed_login_attempts = 0\<close> and
  \<open>locked_until\<close> null, whatever the two columns held before: every row with the id of the
  account in the result has both columns reset, and for an identifier that is a string the
  row the lookup finds afterwards is that account with both columns reset.
\<close>

theorem successful_login_resets_lockout:
  assumes proc: "exec_admin_auth_login rt = admin_auth_login other now ttl new_id fmt"
    and ok: "login rt loginData ipAddress userAgent db = (Inr result, db')"
  shows "(\<exists>account rest.
            lookupAccountByIdentifier other (req_username loginData) db = account # rest \<and>
            r_admin_id (lr_row result) = admin_id account \<and>
            (\<forall>u \<in> set (admin_users db'). admin_id u = admin_id account \<longrightarrow>
               failed_login_attempts u = 0 \<and> locked_until u = None)) \<and>
         (\<forall>ident. req_username loginData = JString ident \<longrightarrow>
            (\<exists>user rest user' rest'.
               select_admin_users ident db = user # rest \<and>
               select_admin_users ident db' = user' # rest' \<and>
               r_admin_id (lr_row result) = admin_id user \<and>
               admin_id user' = admin_id user \<and>
               failed_login_attempts user' = 0 \<and> locked_until user' = None \<and>
               (\<forall>u \<in> set (admin_users db'). admin_id u = admin_id user \<longrightarrow>
                  failed_login_attempts u = 0 \<and> locked_until u = None)))"
proof -
  from ok obtain user0 rest0 row rows sets where
    found: "find_admin_users rt (req_username loginData) db = Inr (user0 # rest0)"
    and call: "exec_admin_auth_login rt (req_username loginData) (password_hash user0)
           (or_null ipAddress) (or_null userAgent) db = (Some ((row # rows) # sets), db')"
    and good: "r_status row \<noteq> ''fail''"
    and row: "lr_row result = row"
    by (rule login_success_cases)
  from call proc have call':
    "admin_auth_login other now ttl new_id fmt (req_username loginData) (password_hash user0)
       (or_null ipAddress) (or_null userAgent) db = (Some ((row # rows) # sets), db')"
    by simp
  from admin_auth_login_success [OF call' good] obtain account rest where
    look: "lookupAccountByIdentifier other (req_username loginData) db = account # rest"
    and after: "db' = appendActivityLog
                   (log_entry ''INFO'' ''login-success'' (username account) (or_null ipAddress) now)
                   (createSession (new_id db) (admin_id account) (or_null ipAddress)
                      (or_null userAgent) now ttl
                      (update_where_admin_id (admin_id account) recordSuccess db))"
    and row': "row = success_row account (new_id db) (now + ttl)"
    by blast
  let ?f = "\<lambda>u. if admin_id u = admin_id account then recordSuccess u else u"
  have users': "admin_users db' = map ?f (admin_users db)"
    by (simp add: after appendActivityLog_def createSession_def update_where_admin_id_def)
  have all: "\<forall>u \<in> set (admin_users db'). admin_id u = admin_id account \<longrightarrow>
               failed_login_attempts u = 0 \<and> locked_until u = None"
    by (auto simp add: users' recordSuccess_def split: if_splits)
  have rid: "r_admin_id (lr_row result) = admin_id account"
    by (simp add: row row' success_row_def)
  have general: "\<exists>account rest.
            lookupAccountByIdentifier other (req_username loginData) db = account # rest \<and>
            r_admin_id (lr_row result) = admin_id account \<and>
            (\<forall>u \<in> set (admin_users db'). admin_id u = admin_id account \<longrightarrow>
               failed_login_attempts u = 0 \<and> locked_until u = None)"
    using look rid all by blast
  have strings: "\<exists>user rest user' rest'.
               select_admin_users ident db = user # rest \<and>
               select_admin_users ident db' = user' # rest' \<and>
               r_admin_id (lr_row result) = admin_id user \<and>
               admin_id user' = admin_id user \<and>
               failed_login_attempts user' = 0 \<and> locked_until user' = None \<and>
               (\<forall>u \<in> set (admin_users db'). admin_id u = admin_id user \<longrightarrow>
                  failed_login_attempts u = 0 \<and> locked_until u = None)"
    if str: "req_username loginData = JString ident" for ident
  proof -
    from look str have sel: "select_admin_users ident db = account # rest"
      by (simp add: lookupAccountByIdentifier_def)
    have "select_admin_users ident db' =
            select_admin_users ident (update_where_admin_id (admin_id account) recordSuccess db)"
      by (simp add: after select_admin_users_def appendActivityLog_def createSession_def)
    then have sel': "select_admin_users ident db' = recordSuccess account # map ?f rest"
      by (simp add: select_after_recordSuccess sel)
    have rs: "admin_id (recordSuccess account) = admin_id account \<and>
              failed_login_attempts (recordSuccess account) = 0 \<and>
              locked_until (recordSuccess account) = None"
      by (simp add: recordSuccess_def)
    from sel sel' rid rs all show ?thesis by blast
  qed
  from general strings show ?thesis by blast
qed

text \<open>
  The fixture account with three failed attempts and a lock that ran out at time 500 logs
  in with its password at time 1000: the login succeeds and the account row is reset.
\<close>

theorem successful_login_resets_lockout_witness:
  "login fixture_rt
      \<lparr>req_username = JString ''test_admin_valid'', req_password = JString ''TestAdmin@123''\<rparr>
      None None
      (fixture_db (fixture_user\<lparr>failed_login_attempts := 3, locked_until := Some 500\<rparr>)) =
     (Inr \<lparr> lr_row = success_row fixture_user ''session-1'' 29800,
            access_token = Signed (fixture_payload ''admin'') ''your_jwt_secret_key'' 29800,
            refresh_token = Signed (fixture_payload ''admin'') ''your_refresh_secret'' 605800 \<rparr>,
      \<lparr> admin_users = [fixture_user],
        admin_sessions =
          [\<lparr> session_id = ''session-1'', session_admin_id = 1, ip_address = None,
             user_agent = None, created_at = 1000, expires_at = 29800,
             session_is_active = True \<rparr>],
        activity_log = [log_entry ''INFO'' ''login-success'' ''test_admin_valid'' None 1000] \<rparr>) \<and>
   (\<exists>user' rest'.
      select_admin_users ''test_admin_valid''
        \<lparr> admin_users = [fixture_user],
          admin_sessions =
            [\<lparr> session_id = ''session-1'', session_admin_id = 1, ip_address = None,
               user_agent = None, created_at = 1000, expires_at = 29800,
               session_is_active = True \<rparr>],
          activity_log = [log_entry ''INFO'' ''login-success'' ''test_admin_valid'' None 1000] \<rparr> =
        user' # rest' \<and>
      failed_login_attempts user' = 0 \<and> locked_until user' = None)"
proof -
  let ?req = "\<lparr>req_username = JString ''test_admin_valid'',
               req_password = JString ''TestAdmin@123''\<rparr>"
  let ?db = "fixture_db (fixture_user\<lparr>failed_login_attempts := 3, locked_until := Some 500\<rparr>)"
  let ?result = "\<lparr> lr_row = success_row fixture_user ''session-1'' 29800,
            access_token = Signed (fixture_payload ''admin'') ''your_jwt_secret_key'' 29800,
            refresh_token = Signed (fixture_payload ''admin'') ''your_refresh_secret'' 605800 \<rparr>"
  let ?db' = "\<lparr> admin_users = [fixture_user],
        admin_sessions =
          [\<lparr> session_id = ''session-1'', session_admin_id = 1, ip_address = None,
             user_agent = None, created_at = 1000, expires_at = 29800,
             session_is_active = True \<rparr>],
        activity_log = [log_entry ''INFO'' ''login-success'' ''test_admin_valid'' None 1000] \<rparr>"
  have proc: "exec_admin_auth_login fixture_rt =
                admin_auth_login (\<lambda>v db. []) 1000 28800 (\<lambda>db. ''session-1'') (\<lambda>t. ''<date>'')"
    by (simp add: fixture_rt_def)
  have run: "login fixture_rt ?req None None ?db = (Inr ?result, ?db')"
    by (simp add: login_def find_admin_users_def fixture_rt_def fixture_compare_def
        fixture_db_def fixture_user_def
        select_admin_users_def running_lock_def or_null_def falsy_def
        admin_auth_login_def lookupAccountByIdentifier_def isLocked_def success_row_def
        recordSuccess_def update_where_admin_id_def createSession_def appendActivityLog_def
        generateAccessToken_def generateRefreshToken_def sym_jwt_def config_of_empty_env
        timespan_8h timespan_7d fixture_payload_def Let_def)
  have name: "req_username ?req = JString ''test_admin_valid''"
    by simp
  note after = successful_login_resets_lockout
                 [OF proc run, THEN conjunct2, rule_format, OF name]
  show ?thesis
    using run after by blast
qed

section \<open>Properties of concurrent failed attempts\<close>



text \<open>
  Run one after the other, the two statements of a request are what \<open>login\<close> does to the
  store whenever it does not go on to the stored procedure.
\<close>

lemma login_as_statements:
  assumes "\<forall>user rest. find_admin_users rt (req_username loginData) db = Inr (user # rest) \<longrightarrow>
             bcrypt_compare rt (req_password loginData) (password_hash user) \<noteq> Inr True"
  shows "snd (login rt loginData ipAddress userAgent db) =
           run_update (run_select \<lparr>at_rt = rt, at_request = loginData, at_row = r\<rparr> db) db"
proof (cases "find_admin_users rt (req_username loginData) db")
  case (Inl queryError)
  then show ?thesis
    by (simp add: login_def run_select_def run_update_def)
next
  case (Inr users)
  show ?thesis
  proof (cases users)
    case Nil
    with Inr show ?thesis
      by (simp add: login_def run_select_def run_update_def)
  next
    case (Cons user rest)
    with Inr have found: "find_admin_users rt (req_username loginData) db = Inr (user # rest)"
      by simp
    with assms have "bcrypt_compare rt (req_password loginData) (password_hash user) \<noteq> Inr True"
      by blast
    with found show ?thesis
      by (auto simp add: login_def run_select_def run_update_def reaches_update_def
          split: option.splits sum.splits bool.splits)
  qed
qed





end
